theory Spec2Isabelle
  imports Main "HOL-Library.AList"
begin

section \<open>Python values and strings\<close>

text \<open>
  An insertion-ordered Python \<open>dict\<close> is an association list: \<open>d.keys()\<close> is
  \<open>map fst d\<close>, \<open>d.items()\<close> is the list itself, \<open>d[k] = v\<close> is \<open>AList.update k v d\<close>
  (an existing key keeps its position, a new one goes last) and \<open>k in d\<close> is
  \<open>k \<in> fst ` set d\<close>.
\<close>

type_synonym ('k, 'v) dict = "('k \<times> 'v) list"

text \<open>
  The Python values the library handles. \<open>PObj attrs is_null\<close> is any other object:
  \<open>attrs\<close> are the attributes \<open>hasattr\<close> finds on it and \<open>is_null\<close> is \<open>None\<close> when the
  object has no \<open>is_null\<close> method and \<open>Some b\<close> when calling it returns \<open>b\<close>.
  \<open>YdbNull\<close> is an instance of \<open>ydb.Null\<close>.
\<close>

datatype pyval =
    PNone
  | PEllipsis
  | PBool bool
  | PInt int
  | PStr string
  | PList "pyval list"
  | PTuple "pyval list"
  | PSet "pyval list"
  | PDict "(pyval \<times> pyval) list"
  | YdbNull
  | PObj "(string \<times> pyval) list" "bool option"

text \<open>\<open>sep.join(xs)\<close>.\<close>

fun str_join :: "string \<Rightarrow> string list \<Rightarrow> string" where
  "str_join sep [] = []"
| "str_join sep [x] = x"
| "str_join sep (x # y # ys) = x @ sep @ str_join sep (y # ys)"

text \<open>\<open>str(n)\<close> for an integer, as an f-string renders it: decimal digits, a minus sign
  for a negative number.\<close>

definition digit_char :: "nat \<Rightarrow> char" where
  "digit_char d = ''0123456789'' ! (d mod 10)"

fun str_nat :: "nat \<Rightarrow> string" where
  "str_nat n = (if n < 10 then [digit_char n] else str_nat (n div 10) @ [digit_char (n mod 10)])"

declare str_nat.simps [simp del]

definition str_int :: "int \<Rightarrow> string" where
  "str_int i = (if i < 0 then CHR ''-'' # str_nat (nat (- i)) else str_nat (nat i))"

text \<open>
  \<open>s.replace(old, new)\<close>: every occurrence of \<open>old\<close> in \<open>s\<close>, found left to right and
  without overlap, becomes \<open>new\<close>. For an empty \<open>old\<close> Python puts \<open>new\<close> before every
  character and at the end.
\<close>

fun replace_from :: "string \<Rightarrow> string \<Rightarrow> nat \<Rightarrow> string \<Rightarrow> string" where
  "replace_from old new k [] = (if old = [] then new else [])"
| "replace_from old new (Suc k) (c # cs) = replace_from old new k cs"
| "replace_from old new 0 (c # cs) =
     (if old = [] then new @ c # replace_from old new 0 cs
      else if take (length old) (c # cs) = old
      then new @ replace_from old new (length old - 1) cs
      else c # replace_from old new 0 cs)"

definition replace :: "string \<Rightarrow> string \<Rightarrow> string \<Rightarrow> string" where
  "replace old new s = replace_from old new 0 s"

section \<open>types.py: the YDB types\<close>

text \<open>
  \<open>YDBType.__init__(python_type, ydb_type, ydb_value)\<close> stores three attributes: the
  Python type, the YDB type name and the constructor of the \<open>ydb\<close> package that wraps a
  value. The twelve classes nested in \<open>YDBMeta\<close> call it with fixed arguments
  (\<open>decimal\<close> with its precision and scale).
\<close>

datatype py_type = PyInt | PyStr | PyBytes | PyFloat | PyBool | PyAny

datatype ydb_ctor =
    ydb_Int64 | ydb_Uint64 | ydb_Utf8 | ydb_String | ydb_Double | ydb_Bool
  | ydb_Timestamp | ydb_Json | ydb_Date | ydb_Datetime | ydb_Interval
  | ydb_Decimal int int

record YDBType =
  python_type :: py_type
  ydb_type :: string
  ydb_value :: ydb_ctor

definition int64 :: YDBType where
  "int64 = \<lparr>python_type = PyInt, ydb_type = ''Int64'', ydb_value = ydb_Int64\<rparr>"

definition uint64 :: YDBType where
  "uint64 = \<lparr>python_type = PyInt, ydb_type = ''Uint64'', ydb_value = ydb_Uint64\<rparr>"

definition utf8 :: YDBType where
  "utf8 = \<lparr>python_type = PyStr, ydb_type = ''Utf8'', ydb_value = ydb_Utf8\<rparr>"

definition string_t :: YDBType where
  "string_t = \<lparr>python_type = PyBytes, ydb_type = ''String'', ydb_value = ydb_String\<rparr>"

definition double :: YDBType where
  "double = \<lparr>python_type = PyFloat, ydb_type = ''Double'', ydb_value = ydb_Double\<rparr>"

definition bool_t :: YDBType where
  "bool_t = \<lparr>python_type = PyBool, ydb_type = ''Bool'', ydb_value = ydb_Bool\<rparr>"

definition timestamp :: YDBType where
  "timestamp = \<lparr>python_type = PyInt, ydb_type = ''Timestamp'', ydb_value = ydb_Timestamp\<rparr>"

definition json :: YDBType where
  "json = \<lparr>python_type = PyStr, ydb_type = ''Json'', ydb_value = ydb_Json\<rparr>"

definition date :: YDBType where
  "date = \<lparr>python_type = PyInt, ydb_type = ''Date'', ydb_value = ydb_Date\<rparr>"

definition datetime :: YDBType where
  "datetime = \<lparr>python_type = PyInt, ydb_type = ''Datetime'', ydb_value = ydb_Datetime\<rparr>"

definition interval :: YDBType where
  "interval = \<lparr>python_type = PyInt, ydb_type = ''Interval'', ydb_value = ydb_Interval\<rparr>"

definition decimal :: "int \<Rightarrow> int \<Rightarrow> YDBType" where
  "decimal precision scale =
     \<lparr>python_type = PyStr,
      ydb_type = ''Decimal('' @ str_int precision @ '', '' @ str_int scale @ '')'',
      ydb_value = ydb_Decimal precision scale\<rparr>"

text \<open>
  A type object is one of the above or an instance of \<open>YDBMeta.Optional\<close>, which keeps
  the object it wraps as \<open>inner_type\<close>. \<open>Optional.__init__\<close> reads the three attributes
  of the inner object: the Python type and the constructor are passed through, the type
  name is put between \<open>Optional<\<close> and \<open>>\<close>.
\<close>

datatype ydb_t = Base YDBType | Optional ydb_t

fun t_python_type :: "ydb_t \<Rightarrow> py_type" where
  "t_python_type (Base b) = python_type b"
| "t_python_type (Optional inner_type) = t_python_type inner_type"

fun t_ydb_type :: "ydb_t \<Rightarrow> string" where
  "t_ydb_type (Base b) = ydb_type b"
| "t_ydb_type (Optional inner_type) = ''Optional<'' @ t_ydb_type inner_type @ ''>''"

fun t_ydb_value :: "ydb_t \<Rightarrow> ydb_ctor" where
  "t_ydb_value (Base b) = ydb_value b"
| "t_ydb_value (Optional inner_type) = t_ydb_value inner_type"

text \<open>\<open>YDB.optional(inner_type)\<close> returns \<open>YDB.Optional(inner_type)\<close>.\<close>

definition optional :: "ydb_t \<Rightarrow> ydb_t" where
  "optional inner_type = Optional inner_type"

section \<open>decorator.py: binding a class\<close>

text \<open>
  The exceptions of the module, one constructor for each place that raises:
  \<^item> \<open>TypeError_not_ydb_type t\<close>: the \<open>TypeError\<close> at the end of \<open>_extract_ydb_type\<close>;
  \<^item> \<open>TypeError_not_dataclass\<close>, \<open>TypeError_unpack_field\<close>: \<open>dataclasses.fields(cls)\<close> on
    a class that is no dataclass, and the unpacking of a \<open>Field\<close> object into
    \<open>name, field\<close>;
  \<^item> \<open>ValueError_mutable_default\<close>, \<open>TypeError_non_default_follows_default\<close>: raised by
    \<open>dataclass(cls)\<close>;
  \<^item> \<open>ValueError_missing_field name\<close>: the \<open>ValueError\<close> of \<open>from_dict\<close>;
  \<^item> \<open>TypeError_missing_arguments\<close>, \<open>TypeError_unexpected_keyword\<close>: raised by the
    \<open>__init__\<close> that \<open>dataclass\<close> generates, called as \<open>cls(**kwargs)\<close>;
  \<^item> \<open>Raised e\<close>: an exception of \<open>row[name]\<close> that \<open>from_ydb_row\<close> does not catch.
\<close>

datatype annotation = NoneType | Cls string | Generic string "annotation list"

datatype error =
    TypeError_not_ydb_type annotation
  | TypeError_not_dataclass
  | TypeError_unpack_field
  | ValueError_mutable_default string
  | TypeError_non_default_follows_default string
  | ValueError_missing_field string
  | TypeError_missing_arguments "string list"
  | TypeError_unexpected_keyword string
  | Raised string

text \<open>
  \<open>YDBFieldInfo.__init__(name, ydb_type, default=...)\<close>, with \<open>ytype\<close> and \<open>dflt\<close> for the
  parameters \<open>ydb_type\<close> and \<open>default\<close>. \<open>_get_python_type\<close> unwraps
  \<open>Optional\<close> and reads \<open>python_type\<close>; every type object has that attribute, so its
  last branch (\<open>Any\<close>) is not taken.
\<close>

record YDBFieldInfo =
  f_name :: string
  f_ydb_type :: ydb_t
  f_default :: pyval
  f_python_type :: py_type

fun get_python_type :: "ydb_t \<Rightarrow> py_type" where
  "get_python_type (Optional inner_type) = get_python_type inner_type"
| "get_python_type (Base b) = python_type b"

definition YDBFieldInfo_init :: "string \<Rightarrow> ydb_t \<Rightarrow> pyval \<Rightarrow> YDBFieldInfo" where
  "YDBFieldInfo_init name ytype dflt =
     \<lparr>f_name = name, f_ydb_type = ytype, f_default = dflt,
      f_python_type = get_python_type ytype\<rparr>"

text \<open>
  An annotation, as \<open>get_type_hints\<close> returns it, is a class (\<open>Cls\<close> with its name,
  \<open>NoneType\<close> for \<open>type(None)\<close>) or a parametrised generic \<open>Generic origin args\<close>, for
  which \<open>get_origin\<close> is not \<open>None\<close> and \<open>get_args\<close> is \<open>args\<close>:
  \<open>typing.Optional[X]\<close> is \<open>Generic ''Union'' [X, NoneType]\<close>.

  Both \<open>_is_ydb_type\<close> and \<open>_extract_ydb_type\<close> (here without the leading
  underscore) scan \<open>dir(YDB)\<close> for the attributes that are types and have a
  \<open>python_type\<close>, and compare each with \<open>t\<close> by identity. What the scan keeps is the
  parameter \<open>reg\<close> of the model: the classes it keeps, each by its qualified name
  (\<open>''YDB.int64''\<close>) and with the attributes read from it later, in the order of the
  scan.
\<close>

type_synonym registry = "(string \<times> YDBType) list"

fun scan :: "registry \<Rightarrow> annotation \<Rightarrow> YDBType option" where
  "scan [] t = None"
| "scan ((cls_name, attr) # rest) t = (if t = Cls cls_name then Some attr else scan rest t)"

definition is_ydb_type :: "registry \<Rightarrow> annotation \<Rightarrow> bool" where
  "is_ydb_type reg t =
     (case scan reg t of
        Some attr \<Rightarrow> True
      | None \<Rightarrow>
          (case t of
             Generic origin args \<Rightarrow>
               (if length args = 2 \<and> args ! 1 = NoneType
                then (case scan reg (args ! 0) of Some attr \<Rightarrow> True | None \<Rightarrow> False)
                else False)
           | _ \<Rightarrow> False))"

definition extract_ydb_type :: "registry \<Rightarrow> annotation \<Rightarrow> error + ydb_t" where
  "extract_ydb_type reg t =
     (case scan reg t of
        Some attr \<Rightarrow> Inr (Base attr)
      | None \<Rightarrow>
          (case t of
             Generic origin args \<Rightarrow>
               (if length args = 2 \<and> args ! 1 = NoneType
                then (case scan reg (args ! 0) of
                        Some attr \<Rightarrow> Inr (optional (Base attr))
                      | None \<Rightarrow> Inl (TypeError_not_ydb_type t))
                else Inl (TypeError_not_ydb_type t))
           | _ \<Rightarrow> Inl (TypeError_not_ydb_type t)))"





text \<open>
  The class given to the decorator: its annotations (\<open>get_type_hints(cls)\<close>, in
  declaration order), its class attributes (\<open>hasattr(cls, name)\<close>, \<open>getattr(cls, name)\<close>)
  and what \<open>dataclasses.fields(cls)\<close> finds on it: \<open>None\<close> when the class is no dataclass
  (it has no \<open>__dataclass_fields__\<close>, of its own or inherited), else the names of its
  fields.
\<close>

record shape =
  annotations :: "(string, annotation) dict"
  class_attrs :: "(string, pyval) dict"
  fields_of :: "string list option"

text \<open>
  The bound class: \<open>cls._ydb_fields\<close> (here \<open>cls_ydb_fields\<close>) and the fields of the
  finished dataclass, each with its default (\<open>None\<close> for a field without one), which
  are the parameters of the generated \<open>__init__\<close>.
\<close>

record bound_class =
  cls_ydb_fields :: "(string, YDBFieldInfo) dict"
  cls_init_fields :: "(string \<times> pyval option) list"

text \<open>The first loop of \<open>wrap\<close>, over \<open>annotations.items()\<close>.\<close>

fun bind_loop ::
  "registry \<Rightarrow> (string \<times> annotation) list \<Rightarrow>
   (string, YDBFieldInfo) dict \<times> (string, py_type) dict \<Rightarrow>
   error + (string, YDBFieldInfo) dict \<times> (string, py_type) dict" where
  "bind_loop reg [] acc = Inr acc"
| "bind_loop reg ((name, type_annotation) # rest) (ydb_fields, python_annotations) =
     (if is_ydb_type reg type_annotation
      then (case extract_ydb_type reg type_annotation of
              Inl e \<Rightarrow> Inl e
            | Inr ytype \<Rightarrow>
                bind_loop reg rest
                  (AList.update name (YDBFieldInfo_init name ytype PEllipsis) ydb_fields,
                   AList.update name (t_python_type ytype) python_annotations))
      else bind_loop reg rest (ydb_fields, python_annotations))"

text \<open>
  The second loop, \<open>for name, field in fields(cls)\<close>: \<open>fields\<close> raises for a class that is
  no dataclass, and each element of its result is a \<open>Field\<close> object, which does not unpack
  into two names. The loop ends normally only over no field at all, with
  \<open>field_defaults\<close> empty.
\<close>

definition capture_defaults ::
  "shape \<Rightarrow> (string, YDBFieldInfo) dict \<Rightarrow> error + (string, pyval) dict" where
  "capture_defaults cls ydb_fields =
     (case fields_of cls of
        None \<Rightarrow> Inl TypeError_not_dataclass
      | Some [] \<Rightarrow> Inr []
      | Some (f # fs) \<Rightarrow> Inl TypeError_unpack_field)"

text \<open>\<open>for name, default_value in field_defaults.items(): setattr(cls, name, default_value)\<close>.\<close>

definition set_defaults :: "(string, pyval) dict \<Rightarrow> (string, pyval) dict \<Rightarrow> (string, pyval) dict" where
  "set_defaults field_defaults attrs = fold (\<lambda>(name, v). AList.update name v) field_defaults attrs"

text \<open>
  \<open>dataclass(cls)\<close> after \<open>cls.__annotations__ = python_annotations\<close>: one field for each
  annotation, its default the class attribute of that name. A list, set or dictionary
  as default is refused, and so is a field without default after one with a default.
\<close>

fun is_mutable :: "pyval \<Rightarrow> bool" where
  "is_mutable (PList xs) = True"
| "is_mutable (PSet xs) = True"
| "is_mutable (PDict kvs) = True"
| "is_mutable v = False"

fun mutable_default :: "(string \<times> pyval option) list \<Rightarrow> string option" where
  "mutable_default [] = None"
| "mutable_default ((name, None) # fs) = mutable_default fs"
| "mutable_default ((name, Some d) # fs) = (if is_mutable d then Some name else mutable_default fs)"

fun non_default_after_default :: "bool \<Rightarrow> (string \<times> pyval option) list \<Rightarrow> string option" where
  "non_default_after_default seen_default [] = None"
| "non_default_after_default seen_default ((name, Some d) # fs) = non_default_after_default True fs"
| "non_default_after_default seen_default ((name, None) # fs) =
     (if seen_default then Some name else non_default_after_default seen_default fs)"

definition dataclass ::
  "(string, pyval) dict \<Rightarrow> (string, py_type) dict \<Rightarrow> error + (string \<times> pyval option) list" where
  "dataclass attrs python_annotations =
     (let fs = map (\<lambda>(name, ty). (name, map_of attrs name)) python_annotations
      in case mutable_default fs of
           Some name \<Rightarrow> Inl (ValueError_mutable_default name)
         | None \<Rightarrow>
             (case non_default_after_default False fs of
                Some name \<Rightarrow> Inl (TypeError_non_default_follows_default name)
              | None \<Rightarrow> Inr fs))"

text \<open>\<open>wrap(cls)\<close> with the decorator's flags at their defaults (\<open>init=True\<close>, \<open>repr=True\<close>,
  \<open>eq=True\<close>, \<open>order=False\<close>).\<close>

definition wrap :: "registry \<Rightarrow> shape \<Rightarrow> error + bound_class" where
  "wrap reg cls =
     (case bind_loop reg (annotations cls) ([], []) of
        Inl e \<Rightarrow> Inl e
      | Inr (ydb_fields, python_annotations) \<Rightarrow>
          (case capture_defaults cls ydb_fields of
             Inl e \<Rightarrow> Inl e
           | Inr field_defaults \<Rightarrow>
               (case dataclass (set_defaults field_defaults (class_attrs cls)) python_annotations of
                  Inl e \<Rightarrow> Inl e
                | Inr fs \<Rightarrow> Inr \<lparr>cls_ydb_fields = ydb_fields, cls_init_fields = fs\<rparr>)))"

section \<open>decorator.py: building records\<close>











fun dict_loop ::
  "(string, pyval) dict \<Rightarrow> (string \<times> YDBFieldInfo) list \<Rightarrow> (string, pyval) dict \<Rightarrow>
   error + (string, pyval) dict" where
  "dict_loop data [] kwargs = Inr kwargs"
| "dict_loop data ((name, field) # rest) kwargs =
     (case map_of data name of
        Some v \<Rightarrow> dict_loop data rest (AList.update name v kwargs)
      | None \<Rightarrow>
          (if f_default field \<noteq> PEllipsis
           then dict_loop data rest (AList.update name (f_default field) kwargs)
           else Inl (ValueError_missing_field name)))"


section \<open>queries.py: statement text\<close>

text \<open>
  \<open>generate_where_clause(conditions)\<close>: the loop appends one clause for each item of the
  dictionary; a value is a sequence when it is a \<open>list\<close> or a \<open>tuple\<close>.
\<close>

fun is_list_or_tuple :: "pyval \<Rightarrow> bool" where
  "is_list_or_tuple (PList xs) = True"
| "is_list_or_tuple (PTuple xs) = True"
| "is_list_or_tuple v = False"

fun py_len :: "pyval \<Rightarrow> nat" where
  "py_len (PList xs) = length xs"
| "py_len (PTuple xs) = length xs"
| "py_len v = 0"

fun where_loop :: "(string \<times> pyval) list \<Rightarrow> string list \<Rightarrow> string list" where
  "where_loop [] clauses = clauses"
| "where_loop ((field, v) # rest) clauses =
     where_loop rest
       (if v = PNone then clauses @ [field @ '' IS NULL'']
        else if is_list_or_tuple v
        then (let placeholders =
                    str_join '', '' (map (\<lambda>i. ''$'' @ field @ ''_'' @ str_nat i) [0..<py_len v])
              in clauses @ [field @ '' IN ('' @ placeholders @ '')''])
        else clauses @ [field @ '' = $'' @ field])"

definition generate_where_clause :: "(string, pyval) dict \<Rightarrow> string" where
  "generate_where_clause conditions = str_join '' AND '' (where_loop conditions [])"

text \<open>\<open>insert_query(table_name, ydb_fields, on_conflict=None)\<close>.\<close>

definition insert_query :: "string \<Rightarrow> (string, YDBFieldInfo) dict \<Rightarrow> string option \<Rightarrow> string" where
  "insert_query table_name ydb_fields on_conflict =
     (let columns = map fst ydb_fields;
          placeholders = map (\<lambda>col. ''$'' @ col) columns;
          columns_str = str_join '', '' columns;
          placeholders_str = str_join '', '' placeholders;
          query = ''INSERT INTO `'' @ table_name @ ''` ('' @ columns_str @ '') VALUES (''
                    @ placeholders_str @ '')''
      in if on_conflict = Some ''REPLACE'' then replace ''INSERT'' ''REPLACE'' query
         else if on_conflict = Some ''UPDATE''
         then ''UPSERT INTO `'' @ table_name @ ''` ('' @ columns_str @ '') VALUES (''
                @ placeholders_str @ '')''
         else query)"

text \<open>\<open>upsert_query(table_name, ydb_fields)\<close>.\<close>

definition upsert_query :: "string \<Rightarrow> (string, YDBFieldInfo) dict \<Rightarrow> string" where
  "upsert_query table_name ydb_fields =
     (let columns = map fst ydb_fields;
          placeholders = map (\<lambda>col. ''$'' @ col) columns;
          columns_str = str_join '', '' columns;
          placeholders_str = str_join '', '' placeholders
      in ''UPSERT INTO `'' @ table_name @ ''` ('' @ columns_str @ '') VALUES (''
           @ placeholders_str @ '')'')"

text \<open>
  \<open>select_query(table_name, ydb_fields=None, where=None, order_by=None, limit=None,
  offset=None, columns=None)\<close>. A test such as \<open>if columns:\<close> holds for a list or a
  dictionary that is given and not empty; \<open>limit\<close> and \<open>offset\<close> are compared with
  \<open>None\<close>. The parameter \<open>where\<close> is written \<open>where'\<close>.
\<close>

definition select_query ::
  "string \<Rightarrow> (string, YDBFieldInfo) dict option \<Rightarrow> (string, pyval) dict option \<Rightarrow>
   string list option \<Rightarrow> int option \<Rightarrow> int option \<Rightarrow> string list option \<Rightarrow> string" where
  "select_query table_name ydb_fields where' order_by limit offset columns =
     (let columns_str =
            (case columns of
               Some (c # cs) \<Rightarrow> str_join '', '' (c # cs)
             | _ \<Rightarrow> (case ydb_fields of
                       Some (f # fs) \<Rightarrow> str_join '', '' (map fst (f # fs))
                     | _ \<Rightarrow> ''*''));
          query = ''SELECT '' @ columns_str @ '' FROM `'' @ table_name @ ''`'';
          query = (case where' of
                     Some (c # cs) \<Rightarrow> query @ '' WHERE '' @ generate_where_clause (c # cs)
                   | _ \<Rightarrow> query);
          query = (case order_by of
                     Some (ob # obs) \<Rightarrow> query @ '' ORDER BY '' @ str_join '', '' (ob # obs)
                   | _ \<Rightarrow> query);
          query = (case limit of
                     Some l \<Rightarrow>
                       (let query = query @ '' LIMIT '' @ str_int l
                        in case offset of
                             Some off \<Rightarrow> query @ '' OFFSET '' @ str_int off
                           | None \<Rightarrow> query)
                   | None \<Rightarrow> query)
      in query)"

text \<open>\<open>update_query(table_name, ydb_fields, where=None, update_fields=None)\<close>.\<close>

definition update_query ::
  "string \<Rightarrow> (string, YDBFieldInfo) dict \<Rightarrow> (string, pyval) dict option \<Rightarrow>
   string list option \<Rightarrow> string" where
  "update_query table_name ydb_fields where' update_fields =
     (let all_fields = map fst ydb_fields;
          set_fields =
            (case update_fields of
               Some (u # us) \<Rightarrow> filter (\<lambda>f. f \<in> set all_fields) (u # us)
             | _ \<Rightarrow> all_fields);
          set_clauses = map (\<lambda>field. field @ '' = $'' @ field) set_fields;
          set_clause = str_join '', '' set_clauses;
          query = ''UPDATE `'' @ table_name @ ''` SET '' @ set_clause
      in case where' of
           Some (c # cs) \<Rightarrow> query @ '' WHERE '' @ generate_where_clause (c # cs)
         | _ \<Rightarrow> query)"

text \<open>\<open>delete_query(table_name, where)\<close>.\<close>

definition delete_query :: "string \<Rightarrow> (string, pyval) dict \<Rightarrow> string" where
  "delete_query table_name where' =
     (let query = ''DELETE FROM `'' @ table_name @ ''`''
      in if where' \<noteq> [] then query @ '' WHERE '' @ generate_where_clause where' else query)"


section \<open>The statements of the specification\<close>

text \<open>
  The clause the specification gives for one condition: \<open>IS NULL\<close> for the absent
  marker, \<open>IN\<close> with one indexed parameter for each element of a sequence, an equality
  with the parameter named after the field otherwise.
\<close>

definition indexed_params :: "string \<Rightarrow> nat \<Rightarrow> string list" where
  "indexed_params field n = map (\<lambda>i. ''$'' @ field @ ''_'' @ str_nat i) [0..<n]"

fun predicate_clause :: "string \<Rightarrow> pyval \<Rightarrow> string" where
  "predicate_clause field PNone = field @ '' IS NULL''"
| "predicate_clause field (PList xs) =
     field @ '' IN ('' @ str_join '', '' (indexed_params field (length xs)) @ '')''"
| "predicate_clause field (PTuple xs) =
     field @ '' IN ('' @ str_join '', '' (indexed_params field (length xs)) @ '')''"
| "predicate_clause field v = field @ '' = $'' @ field"

text \<open>
  The parts of a \<open>SELECT\<close> statement as the specification orders them: the column list
  (explicit columns before the fields of the binding set before the wildcard), the
  \<open>WHERE\<close> clause of a predicate that is not empty, the \<open>ORDER BY\<close> clause, and \<open>LIMIT\<close>
  followed by \<open>OFFSET\<close>. A list or dictionary that is empty counts as not given.
\<close>

fun columns_part :: "string list option \<Rightarrow> (string, YDBFieldInfo) dict option \<Rightarrow> string" where
  "columns_part (Some (c # cs)) ydb_fields = str_join '', '' (c # cs)"
| "columns_part columns (Some (f # fs)) = str_join '', '' (map fst (f # fs))"
| "columns_part columns ydb_fields = ''*''"

fun where_part :: "(string, pyval) dict option \<Rightarrow> string" where
  "where_part (Some (c # cs)) = '' WHERE '' @ generate_where_clause (c # cs)"
| "where_part w = []"

fun order_part :: "string list option \<Rightarrow> string" where
  "order_part (Some (ob # obs)) = '' ORDER BY '' @ str_join '', '' (ob # obs)"
| "order_part ob = []"

fun limit_part :: "int option \<Rightarrow> int option \<Rightarrow> string" where
  "limit_part None offset = []"
| "limit_part (Some l) None = '' LIMIT '' @ str_int l"
| "limit_part (Some l) (Some off) = '' LIMIT '' @ str_int l @ '' OFFSET '' @ str_int off"



text \<open>
  The specification's words for the dict path: a field has no default when the default
  of its binding is absent (\<open>...\<close>); a record built from a mapping holds, for each
  field, the supplied value or else the default of the binding.
\<close>

definition no_default :: "YDBFieldInfo \<Rightarrow> bool" where
  "no_default field = (f_default field = PEllipsis)"


definition missing_fields :: "bound_class \<Rightarrow> (string, pyval) dict \<Rightarrow> string list" where
  "missing_fields b data =
     map fst (filter (\<lambda>(name, field). no_default field \<and> name \<notin> fst ` set data)
                (cls_ydb_fields b))"

section \<open>Sample inputs\<close>

text \<open>A binding for a field of type \<open>YDB.int64\<close>, as \<open>wrap\<close> builds it.\<close>

definition int64_field :: "string \<Rightarrow> YDBFieldInfo" where
  "int64_field name = YDBFieldInfo_init name (Base int64) PEllipsis"

text \<open>
  A registry that is not the one of the code as it is (\<open>scanned_registry\<close>, which is
  empty): the registry the scan would keep if the eleven type classes that \<open>YDB.<name>\<close>
  reaches were listed by \<open>dir(YDB)\<close> and had their attributes on the class. It serves
  as a second instance for properties that hold for every registry.
\<close>

definition intended_registry :: registry where
  "intended_registry =
     [(''YDB.bool'', bool_t), (''YDB.date'', date), (''YDB.datetime'', datetime),
      (''YDB.double'', double), (''YDB.int64'', int64), (''YDB.interval'', interval),
      (''YDB.json'', json), (''YDB.string'', string_t), (''YDB.timestamp'', timestamp),
      (''YDB.uint64'', uint64), (''YDB.utf8'', utf8)]"

text \<open>
  The sample classes have an empty \<open>dataclasses.fields\<close> before binding (a class derived
  from a dataclass without fields), so that the second loop of \<open>wrap\<close> passes.
  \<^item> \<open>plain_shape\<close>: \<open>tags: list\<close> and \<open>nick: Optional[str]\<close>;
  \<^item> \<open>user_shape\<close>: \<open>id: YDB.int64\<close>, \<open>email: Optional[YDB.utf8]\<close> and \<open>tags: list\<close>, no
    class attribute. \<open>unbound_class\<close> is what \<open>wrap\<close> returns for it on the code as it
    is: no bound field, a record factory without parameters. \<open>user_class\<close> is what
    \<open>wrap\<close> returns for it with \<open>intended_registry\<close>.
\<close>

definition plain_shape :: shape where
  "plain_shape =
     \<lparr>annotations =
        [(''tags'', Cls ''list''), (''nick'', Generic ''Union'' [Cls ''str'', NoneType])],
      class_attrs = [], fields_of = Some []\<rparr>"

definition user_shape :: shape where
  "user_shape =
     \<lparr>annotations =
        [(''id'', Cls ''YDB.int64''),
         (''email'', Generic ''Union'' [Cls ''YDB.utf8'', NoneType]),
         (''tags'', Cls ''list'')],
      class_attrs = [], fields_of = Some []\<rparr>"


definition user_class :: bound_class where
  "user_class =
     \<lparr>cls_ydb_fields =
        [(''id'', int64_field ''id''),
         (''email'', YDBFieldInfo_init ''email'' (Optional (Base utf8)) PEllipsis)],
      cls_init_fields = [(''id'', None), (''email'', None)]\<rparr>"




section \<open>Properties of queries.py\<close>

lemma where_loop_append:
  "where_loop conditions clauses =
     clauses @ map (\<lambda>(field, v). predicate_clause field v) conditions"
proof (induction conditions arbitrary: clauses)
  case Nil
  then show ?case by simp
next
  case (Cons c conditions)
  obtain field v where c: "c = (field, v)" by (cases c)
  show ?case
    unfolding c by (cases v) (simp_all add: Cons.IH indexed_params_def)
qed

text \<open>
  C7. \<open>generate_where_clause\<close> turns each condition into the clause of the
  specification (\<open>field IS NULL\<close> for \<open>None\<close>, \<open>field IN ($field_0, ..., $field_{n-1})\<close>
  for a list or tuple of length \<open>n\<close>, \<open>field = $field\<close> for any other value) and joins
  the clauses with \<open>AND\<close> in the order of the mapping. The parameters of a sequence
  are as many as its elements, the one at index \<open>i\<close> named \<open>$field_i\<close>.
\<close>

theorem generate_where_clause_spec:
  "generate_where_clause conditions =
     str_join '' AND '' (map (\<lambda>(field, v). predicate_clause field v) conditions)
   \<and> length (indexed_params field n) = n
   \<and> (i < n \<longrightarrow> indexed_params field n ! i = ''$'' @ field @ ''_'' @ str_nat i)
   \<and> (v \<noteq> PNone \<and> \<not> is_list_or_tuple v \<longrightarrow>
        predicate_clause field v = field @ '' = $'' @ field)"
proof (intro conjI impI)
  show "generate_where_clause conditions =
          str_join '' AND '' (map (\<lambda>(field, v). predicate_clause field v) conditions)"
    by (simp add: generate_where_clause_def where_loop_append)
  show "length (indexed_params field n) = n"
    by (simp add: indexed_params_def)
  show "indexed_params field n ! i = ''$'' @ field @ ''_'' @ str_nat i" if "i < n"
    using that by (simp add: indexed_params_def)
  show "predicate_clause field v = field @ '' = $'' @ field"
    if "v \<noteq> PNone \<and> \<not> is_list_or_tuple v"
    using that by (cases v) simp_all
qed

theorem generate_where_clause_spec_witness:
  "generate_where_clause
     [(''a'', PNone), (''b'', PList [PInt 1, PInt 2]), (''c'', PInt 5), (''d'', PTuple [])] =
   ''a IS NULL AND b IN ($b_0, $b_1) AND c = $c AND d IN ()''"
  using generate_where_clause_spec
    [of "[(''a'', PNone), (''b'', PList [PInt 1, PInt 2]), (''c'', PInt 5), (''d'', PTuple [])]"
        "''b''" 2 0 "PInt 5"]
  by (simp add: indexed_params_def str_nat.simps digit_char_def upt_rec)

text \<open>
  C8. \<open>select_query\<close> builds the statement in a fixed order: the column list (explicit
  columns, else the fields of the binding set, else the wildcard), the table, \<open>WHERE\<close>
  only for a predicate that is not empty, \<open>ORDER BY\<close> only when given, then \<open>LIMIT\<close>
  followed by \<open>OFFSET\<close>; without a \<open>LIMIT\<close> no \<open>OFFSET\<close> is written, whatever the offset.
\<close>

theorem select_query_clause_order:
  "select_query table_name ydb_fields where' order_by limit offset columns =
     ''SELECT '' @ columns_part columns ydb_fields @ '' FROM `'' @ table_name @ ''`''
       @ where_part where' @ order_part order_by @ limit_part limit offset
   \<and> select_query table_name ydb_fields where' order_by None offset columns =
     select_query table_name ydb_fields where' order_by None None columns"
  by (cases "(columns, ydb_fields)" rule: columns_part.cases;
      cases where' rule: where_part.cases;
      cases order_by rule: order_part.cases;
      cases "(limit, offset)" rule: limit_part.cases)
     (simp_all add: select_query_def Let_def)

theorem select_query_clause_order_witness:
  "select_query ''t'' None (Some [(''x'', PInt 1)]) (Some [''x'']) (Some 10) (Some 5) None =
     ''SELECT * FROM `t` WHERE x = $x ORDER BY x LIMIT 10 OFFSET 5''
   \<and> select_query ''t'' (Some [(''a'', int64_field ''a''), (''b'', int64_field ''b'')])
         None None None (Some 5) None = ''SELECT a, b FROM `t`''
   \<and> select_query ''t'' (Some [(''a'', int64_field ''a'')]) None None (Some 0) None
         (Some [''b'', ''c'']) = ''SELECT b, c FROM `t` LIMIT 0''"
  using select_query_clause_order
    [of "''t''" None "Some [(''x'', PInt 1)]" "Some [''x'']" "Some 10" "Some 5" None]
    select_query_clause_order
    [of "''t''" "Some [(''a'', int64_field ''a''), (''b'', int64_field ''b'')]"
        None None None "Some 5" None]
    select_query_clause_order
    [of "''t''" "Some [(''a'', int64_field ''a'')]" None None "Some 0" None
        "Some [''b'', ''c'']"]
  by (simp add: generate_where_clause_spec str_int_def str_nat.simps digit_char_def)

text \<open>
  C9. \<open>delete_query\<close> with an empty predicate map returns the \<open>DELETE\<close> statement without
  a \<open>WHERE\<close> clause (an unconditional delete); a predicate map that is not empty adds
  the \<open>WHERE\<close> clause that \<open>generate_where_clause\<close> produces. The function is total: it
  has no path that raises.
\<close>

theorem delete_query_where:
  "delete_query table_name [] = ''DELETE FROM `'' @ table_name @ ''`''
   \<and> (where' \<noteq> [] \<longrightarrow>
        delete_query table_name where' =
          ''DELETE FROM `'' @ table_name @ ''` WHERE '' @ generate_where_clause where')"
  by (simp add: delete_query_def Let_def)

theorem delete_query_where_witness:
  "delete_query ''t'' [] = ''DELETE FROM `t`''
   \<and> delete_query ''t'' [(''id'', PInt 7), (''gone'', PNone)] =
       ''DELETE FROM `t` WHERE id = $id AND gone IS NULL''"
  using delete_query_where [of "''t''" "[(''id'', PInt 7), (''gone'', PNone)]"]
  by (simp add: generate_where_clause_spec)

text \<open>
  C10. \<open>insert_query\<close> with \<open>on_conflict = "UPDATE"\<close> returns the same text as
  \<open>upsert_query\<close> for the same table and fields.
\<close>

theorem insert_update_is_upsert:
  "insert_query table_name ydb_fields (Some ''UPDATE'') = upsert_query table_name ydb_fields"
  by (simp add: insert_query_def upsert_query_def Let_def)

text \<open>
  C6, as amended. When \<open>update_fields\<close> is given and not empty, the \<open>SET\<close> clause has the
  members of \<open>update_fields\<close> that are fields of the binding set, in the order of
  \<open>update_fields\<close>; when it is absent or empty, the clause has all fields of the binding
  set. Each assignment is \<open>field = $field\<close>.
\<close>

theorem update_query_set_clause:
  "(update_query table_name ydb_fields where' (Some (u # us)) =
      ''UPDATE `'' @ table_name @ ''` SET ''
        @ str_join '', '' (map (\<lambda>field. field @ '' = $'' @ field)
                            (filter (\<lambda>f. f \<in> fst ` set ydb_fields) (u # us)))
        @ where_part where')
   \<and> (update_fields = None \<or> update_fields = Some [] \<longrightarrow>
        update_query table_name ydb_fields where' update_fields =
          ''UPDATE `'' @ table_name @ ''` SET ''
            @ str_join '', '' (map (\<lambda>field. field @ '' = $'' @ field) (map fst ydb_fields))
            @ where_part where')"
  by (cases where' rule: where_part.cases)
     (auto simp add: update_query_def Let_def)

theorem update_query_set_clause_witness:
  "update_query ''t'' [(''a'', int64_field ''a''), (''b'', int64_field ''b'')]
       (Some [(''id'', PInt 1)]) (Some [''b'', ''zz'']) =
     ''UPDATE `t` SET b = $b WHERE id = $id''
   \<and> update_query ''t'' [(''a'', int64_field ''a''), (''b'', int64_field ''b'')] None None =
     ''UPDATE `t` SET a = $a, b = $b''"
  using update_query_set_clause
          [of "''t''" "[(''a'', int64_field ''a''), (''b'', int64_field ''b'')]"
              "Some [(''id'', PInt 1)]" "''b''" "[''zz'']" None]
        update_query_set_clause
          [of "''t''" "[(''a'', int64_field ''a''), (''b'', int64_field ''b'')]"
              None "''b''" "[''zz'']" None]
  by (simp add: generate_where_clause_spec)

text \<open>
  C6 as stated fails for an \<open>update_fields\<close> that is given and empty: the \<open>SET\<close> clause is
  not restricted to the (empty) intersection, it lists every field.
\<close>

theorem update_query_empty_fields_counterexample:
  "update_query ''t'' [(''a'', int64_field ''a''), (''b'', int64_field ''b'')] None (Some []) =
     ''UPDATE `t` SET a = $a, b = $b''"
  by (simp add: update_query_def)

text \<open>
  The verbs of \<open>insert_query\<close>: a plain \<open>INSERT\<close> unless \<open>on_conflict\<close> is \<open>"REPLACE"\<close> or
  \<open>"UPDATE"\<close>; for \<open>"REPLACE"\<close> the statement starts with \<open>REPLACE INTO\<close>, and
  \<open>str.replace\<close> goes on through the table name, the columns and the placeholders.
\<close>

lemma insert_query_verbs:
  "(on_conflict \<noteq> Some ''REPLACE'' \<and> on_conflict \<noteq> Some ''UPDATE'' \<longrightarrow>
      insert_query table_name ydb_fields on_conflict =
        ''INSERT INTO `'' @ table_name @ ''` ('' @ str_join '', '' (map fst ydb_fields)
          @ '') VALUES ('' @ str_join '', '' (map (\<lambda>col. ''$'' @ col) (map fst ydb_fields))
          @ '')'')
   \<and> insert_query table_name ydb_fields (Some ''UPDATE'') =
        ''UPSERT INTO `'' @ table_name @ ''` ('' @ str_join '', '' (map fst ydb_fields)
          @ '') VALUES ('' @ str_join '', '' (map (\<lambda>col. ''$'' @ col) (map fst ydb_fields))
          @ '')''
   \<and> insert_query table_name ydb_fields (Some ''REPLACE'') =
        ''REPLACE INTO `''
          @ replace ''INSERT'' ''REPLACE''
              (table_name @ ''` ('' @ str_join '', '' (map fst ydb_fields)
                 @ '') VALUES ('' @ str_join '', '' (map (\<lambda>col. ''$'' @ col) (map fst ydb_fields))
                 @ '')'')"
  by (simp add: insert_query_def Let_def replace_def)

text \<open>
  C4 fails on the code for \<open>on_conflict = "REPLACE"\<close>: \<open>query.replace("INSERT", "REPLACE")\<close>
  rewrites every occurrence of \<open>INSERT\<close>, so a column named \<open>INSERTED_AT\<close> is not kept: the
  statement names the column \<open>REPLACEED_AT\<close> and the placeholder \<open>$REPLACEED_AT\<close>.
\<close>

theorem insert_query_replace_rewrites_names:
  "insert_query ''t'' [(''INSERTED_AT'', int64_field ''INSERTED_AT'')] (Some ''REPLACE'') =
     ''REPLACE INTO `t` (REPLACEED_AT) VALUES ($REPLACEED_AT)''"
  by (simp add: insert_query_def replace_def)

section \<open>Properties of types.py and of binding\<close>

lemma is_ydb_type_extract:
  "is_ydb_type reg t \<Longrightarrow> \<exists>y. extract_ydb_type reg t = Inr y"
  by (auto simp add: is_ydb_type_def extract_ydb_type_def
           split: option.splits annotation.splits if_splits)

lemma extract_error_iff:
  "(extract_ydb_type reg t = Inl (TypeError_not_ydb_type t)) = (\<not> is_ydb_type reg t)"
  by (auto simp add: is_ydb_type_def extract_ydb_type_def
           split: option.splits annotation.splits if_splits)

lemma bind_loop_returns: "\<exists>r. bind_loop reg anns acc = Inr r"
proof (induction anns arbitrary: acc)
  case Nil
  then show ?case by simp
next
  case (Cons a anns)
  obtain name t where a: "a = (name, t)" by (cases a)
  obtain yf pa where acc: "acc = (yf, pa)" by (cases acc)
  show ?case
  proof (cases "is_ydb_type reg t")
    case True
    then obtain y where "extract_ydb_type reg t = Inr y"
      using is_ydb_type_extract by blast
    then show ?thesis using True Cons.IH by (simp add: a acc)
  next
    case False
    then show ?thesis using Cons.IH by (simp add: a acc)
  qed
qed

lemma bind_loop_keys:
  "bind_loop reg anns (yf, pa) = Inr (yf', pa') \<Longrightarrow>
   fst ` set yf' = fst ` set yf \<union> {n. \<exists>a. (n, a) \<in> set anns \<and> is_ydb_type reg a}"
proof (induction anns arbitrary: yf pa)
  case Nil
  then show ?case by simp
next
  case (Cons a anns)
  obtain name t where a: "a = (name, t)" by (cases a)
  show ?case
  proof (cases "is_ydb_type reg t")
    case True
    then obtain y where y: "extract_ydb_type reg t = Inr y"
      using is_ydb_type_extract by blast
    have "bind_loop reg anns
            (AList.update name (YDBFieldInfo_init name y PEllipsis) yf,
             AList.update name (t_python_type y) pa) = Inr (yf', pa')"
      using Cons.prems True y by (simp add: a)
    from Cons.IH [OF this] show ?thesis
      using True by (auto simp add: a dom_update)
  next
    case False
    then have "bind_loop reg anns (yf, pa) = Inr (yf', pa')"
      using Cons.prems by (simp add: a)
    from Cons.IH [OF this] show ?thesis
      using False by (auto simp add: a)
  qed
qed




lemma wrap_Inr:
  assumes "wrap reg cls = Inr b"
  shows "\<exists>pa. bind_loop reg (annotations cls) ([], []) = Inr (cls_ydb_fields b, pa)
           \<and> fields_of cls = Some []
           \<and> cls_init_fields b = map (\<lambda>(name, ty). (name, map_of (class_attrs cls) name)) pa"
  using assms
  by (auto simp add: wrap_def capture_defaults_def dataclass_def set_defaults_def Let_def
           split: sum.splits option.splits list.splits prod.splits)

lemma wrap_Inl:
  assumes "wrap reg cls = Inl e"
  shows "e = TypeError_not_dataclass \<or> e = TypeError_unpack_field
         \<or> (\<exists>n. e = ValueError_mutable_default n)
         \<or> (\<exists>n. e = TypeError_non_default_follows_default n)"
proof -
  obtain r where "bind_loop reg (annotations cls) ([], []) = Inr r"
    using bind_loop_returns by blast
  then show ?thesis
    using assms
    by (auto simp add: wrap_def capture_defaults_def dataclass_def Let_def
             split: sum.splits option.splits list.splits prod.splits)
qed

lemma scan_registered: "scan reg t = Some b \<Longrightarrow> \<exists>c. (c, b) \<in> set reg"
  by (induction reg) (auto split: if_splits)

text \<open>
  C5, as amended. \<open>YDB.optional\<close> neither flattens nor rejects: applied to a type that
  is already optional it wraps it once more, and the store type name is
  \<open>Optional<Optional<T>>\<close>. Only the binder keeps to one level: a type that
  \<open>_extract_ydb_type\<close> resolves is a registered base type or one \<open>Optional\<close> around it.
\<close>

theorem optional_wraps_again:
  "optional (optional t) = Optional (Optional t)
   \<and> t_ydb_type (optional (optional t)) = ''Optional<Optional<'' @ t_ydb_type t @ ''>>''
   \<and> (extract_ydb_type reg a = Inr ty \<longrightarrow>
        (\<exists>c b. (c, b) \<in> set reg \<and> (ty = Base b \<or> ty = Optional (Base b))))"
  by (auto simp add: optional_def extract_ydb_type_def
           split: option.splits annotation.splits if_splits dest: scan_registered)

theorem optional_wraps_again_witness:
  "t_ydb_type (optional (optional (Base utf8))) = ''Optional<Optional<Utf8>>''
   \<and> extract_ydb_type intended_registry (Generic ''Union'' [Cls ''YDB.utf8'', NoneType]) =
       Inr (Optional (Base utf8))
   \<and> (\<exists>c b. (c, b) \<in> set intended_registry
            \<and> (Optional (Base utf8) = Base b \<or> Optional (Base utf8) = Optional (Base b)))"
proof -
  have resolved:
    "extract_ydb_type intended_registry (Generic ''Union'' [Cls ''YDB.utf8'', NoneType]) =
       Inr (Optional (Base utf8))"
    by (simp add: extract_ydb_type_def intended_registry_def optional_def)
  from optional_wraps_again
         [of "Base utf8" intended_registry "Generic ''Union'' [Cls ''YDB.utf8'', NoneType]"
             "Optional (Base utf8)"] resolved
  show ?thesis by (simp add: utf8_def)
qed

text \<open>
  C5 as stated fails: the optional of the optional of \<open>int64\<close> is built, it is not the
  single optional, and its store type is nested.
\<close>

theorem optional_of_optional_counterexample:
  "optional (optional (Base int64)) = Optional (Optional (Base int64))
   \<and> optional (optional (Base int64)) \<noteq> optional (Base int64)
   \<and> t_ydb_type (optional (optional (Base int64))) = ''Optional<Optional<Int64>>''"
  by (simp add: optional_def int64_def)

lemma wrap_user_shape: "wrap intended_registry user_shape = Inr user_class"
  by (simp add: wrap_def user_shape_def user_class_def int64_field_def intended_registry_def
      is_ydb_type_def extract_ydb_type_def capture_defaults_def dataclass_def set_defaults_def
      optional_def)

text \<open>
  C1, as amended. \<open>_extract_ydb_type\<close> raises its \<open>TypeError\<close> exactly for the types that
  \<open>_is_ydb_type\<close> rejects, and \<open>wrap\<close> calls it only for the types \<open>_is_ydb_type\<close>
  accepts. So binding never raises that error, whatever the registry and the class: an
  attribute whose type is not supported (an optional of an unsupported type too) is
  left out of \<open>_ydb_fields\<close>, which holds exactly the attributes with a supported type.
\<close>

theorem wrap_leaves_out_unsupported_types:
  "(extract_ydb_type reg t = Inl (TypeError_not_ydb_type t)) = (\<not> is_ydb_type reg t)
   \<and> wrap reg cls \<noteq> Inl (TypeError_not_ydb_type t)
   \<and> (wrap reg cls = Inr b \<longrightarrow>
        fst ` set (cls_ydb_fields b) =
          {n. \<exists>a. (n, a) \<in> set (annotations cls) \<and> is_ydb_type reg a})"
proof (intro conjI impI)
  show "(extract_ydb_type reg t = Inl (TypeError_not_ydb_type t)) = (\<not> is_ydb_type reg t)"
    by (rule extract_error_iff)
  show "wrap reg cls \<noteq> Inl (TypeError_not_ydb_type t)"
    using wrap_Inl [of reg cls "TypeError_not_ydb_type t"] by auto
  assume "wrap reg cls = Inr b"
  then obtain pa where "bind_loop reg (annotations cls) ([], []) = Inr (cls_ydb_fields b, pa)"
    using wrap_Inr by blast
  from bind_loop_keys [OF this]
  show "fst ` set (cls_ydb_fields b) =
          {n. \<exists>a. (n, a) \<in> set (annotations cls) \<and> is_ydb_type reg a}"
    by simp
qed

theorem wrap_leaves_out_unsupported_types_witness:
  "\<not> is_ydb_type intended_registry (Cls ''list'')
   \<and> extract_ydb_type intended_registry (Cls ''list'') = Inl (TypeError_not_ydb_type (Cls ''list''))
   \<and> wrap intended_registry user_shape = Inr user_class
   \<and> {n. \<exists>a. (n, a) \<in> set (annotations user_shape) \<and> is_ydb_type intended_registry a} =
       {''id'', ''email''}"
proof -
  have unsupported: "\<not> is_ydb_type intended_registry (Cls ''list'')"
    by (simp add: is_ydb_type_def intended_registry_def)
  have names: "fst ` set (cls_ydb_fields user_class) = {''id'', ''email''}"
    by (simp add: user_class_def)
  from wrap_leaves_out_unsupported_types [of intended_registry "Cls ''list''" user_shape user_class]
    unsupported wrap_user_shape names
  show ?thesis by simp
qed

text \<open>
  C1 as stated fails: the class with \<open>tags: list\<close> and \<open>nick: Optional[str]\<close> has only
  attributes of unsupported types, and binding it returns a class with no bound field,
  with the registry of the code as it is (the empty one) and with \<open>intended_registry\<close>.
\<close>

theorem wrap_unsupported_type_counterexample:
  "\<not> is_ydb_type intended_registry (Cls ''list'')
   \<and> \<not> is_ydb_type intended_registry (Generic ''Union'' [Cls ''str'', NoneType])
   \<and> wrap intended_registry plain_shape = Inr \<lparr>cls_ydb_fields = [], cls_init_fields = []\<rparr>
   \<and> wrap [] plain_shape = Inr \<lparr>cls_ydb_fields = [], cls_init_fields = []\<rparr>"
  by (simp add: wrap_def plain_shape_def intended_registry_def is_ydb_type_def
      capture_defaults_def dataclass_def set_defaults_def)








section \<open>Properties of the record paths\<close>






lemma dict_loop_error:
  "dict_loop data fs kw = Inl e \<Longrightarrow> \<exists>m. e = ValueError_missing_field m"
  by (induction fs arbitrary: kw) (auto split: option.splits if_splits)











end
